theory Spec2Isabelle
  imports Main
begin

section \<open>Python strings\<close>

text \<open>
  A Python \<^verbatim>\<open>str\<close> is a sequence of Unicode code points, so it is modelled as the list
  of its code points. \<open>ustr\<close> turns an ASCII literal into such a string.
\<close>

type_synonym ustring = "nat list"

definition ustr :: "string \<Rightarrow> ustring" where
  "ustr cs = map of_char cs"

text \<open>
  \<^verbatim>\<open>str.isspace\<close>, which is also the class \<^verbatim>\<open>\s\<close> of \<^verbatim>\<open>re\<close> on a \<^verbatim>\<open>str\<close> pattern and what
  \<^verbatim>\<open>str.strip()\<close> removes: the Unicode white space code points.
\<close>

definition isspace :: "nat \<Rightarrow> bool" where
  "isspace c =
     ((9 \<le> c \<and> c \<le> 13) \<or> (28 \<le> c \<and> c \<le> 32) \<or> c = 0x85 \<or> c = 0xA0 \<or> c = 0x1680 \<or>
      (0x2000 \<le> c \<and> c \<le> 0x200A) \<or> c = 0x2028 \<or> c = 0x2029 \<or> c = 0x202F \<or>
      c = 0x205F \<or> c = 0x3000)"

definition strip :: "ustring \<Rightarrow> ustring" where
  "strip s = rev (dropWhile isspace (rev (dropWhile isspace s)))"

text \<open>
  \<^verbatim>\<open>str.lower()\<close>. The source only ever compares a lowered string with ASCII words
  (by \<^verbatim>\<open>in\<close> or \<^verbatim>\<open>==\<close>), so the model is exact on every code point whose lower case holds
  an ASCII character: the letters A to Z, the Kelvin sign (to \<^verbatim>\<open>k\<close>) and the dotted capital
  I (to \<^verbatim>\<open>i\<close> followed by a combining dot). Every other code point lowers to code points
  outside ASCII; the model leaves it as it is.
\<close>

definition lower_cp :: "nat \<Rightarrow> ustring" where
  "lower_cp c =
     (if 65 \<le> c \<and> c \<le> 90 then [c + 32]
      else if c = 0x212A then [107]
      else if c = 0x130 then [105, 0x307]
      else [c])"

definition lower :: "ustring \<Rightarrow> ustring" where
  "lower s = concat (map lower_cp s)"

text \<open>\<^verbatim>\<open>s.startswith(p)\<close>, \<^verbatim>\<open>s.endswith(p)\<close> and \<^verbatim>\<open>sub in s\<close>.\<close>

fun startswith :: "ustring \<Rightarrow> ustring \<Rightarrow> bool" where
  "startswith s [] = True"
| "startswith [] (p # ps) = False"
| "startswith (c # cs) (p # ps) = (c = p \<and> startswith cs ps)"

definition endswith :: "ustring \<Rightarrow> ustring \<Rightarrow> bool" where
  "endswith s p = startswith (rev s) (rev p)"

fun contains :: "ustring \<Rightarrow> ustring \<Rightarrow> bool" where
  "contains [] sub = (sub = [])"
| "contains (c # cs) sub = (startswith (c # cs) sub \<or> contains cs sub)"

text \<open>\<^verbatim>\<open>str(n)\<close> for a non-negative integer: its decimal digits.\<close>

fun str_nat :: "nat \<Rightarrow> ustring" where
  "str_nat n = (if n < 10 then [48 + n] else str_nat (n div 10) @ [48 + n mod 10])"

declare str_nat.simps [simp del]

section \<open>Messages and tools\<close>

text \<open>
  The content of a message is a \<^verbatim>\<open>str\<close> or a list of content blocks; of a block the source
  looks at a \<^verbatim>\<open>text\<close> attribute, a \<^verbatim>\<open>'text'\<close> key, or whether it is a plain string.
  A tool call carries its name, its arguments (here as pairs of texts) and its identifier.
\<close>

datatype block = TextAttr ustring | TextDict ustring | StrBlock ustring | OtherBlock

datatype content = Str ustring | Blocks "block list"

record tool_call =
  call_name :: ustring
  call_args :: "(ustring \<times> ustring) list"
  call_id :: ustring

datatype message =
    HumanMessage content
  | AIMessage content "tool_call list"
  | ToolMessage content ustring
  | SystemMessage content

text \<open>
  Exceptions, each with the text \<^verbatim>\<open>str(e)\<close> gives. \<open>is_Exception\<close> is
  \<^verbatim>\<open>isinstance(e, Exception)\<close>: a keyboard interrupt and a system exit are
  \<^verbatim>\<open>BaseException\<close>s only.
\<close>

datatype exn =
    IndexError ustring
  | AttributeError ustring
  | FileNotFoundError ustring
  | Exception ustring
  | KeyboardInterrupt
  | SystemExit

fun is_Exception :: "exn \<Rightarrow> bool" where
  "is_Exception KeyboardInterrupt = False"
| "is_Exception SystemExit = False"
| "is_Exception e = True"

fun str_exn :: "exn \<Rightarrow> ustring" where
  "str_exn (IndexError m) = m"
| "str_exn (AttributeError m) = m"
| "str_exn (FileNotFoundError m) = m"
| "str_exn (Exception m) = m"
| "str_exn KeyboardInterrupt = []"
| "str_exn SystemExit = []"

fun class_name :: "message \<Rightarrow> ustring" where
  "class_name (HumanMessage c) = ustr ''HumanMessage''"
| "class_name (AIMessage c calls) = ustr ''AIMessage''"
| "class_name (ToolMessage c i) = ustr ''ToolMessage''"
| "class_name (SystemMessage c) = ustr ''SystemMessage''"

definition list_index_error :: exn where
  "list_index_error = IndexError (ustr ''list index out of range'')"

definition no_attribute :: "ustring \<Rightarrow> ustring \<Rightarrow> exn" where
  "no_attribute cls attr =
     AttributeError ([39] @ cls @ ustr '' object has no attribute '' @ [39] @ attr @ [39])"

text \<open>
  A tool of the registry. Its invocation acts on the world outside the program (type
  \<open>'w\<close>: network, file system, the remote service) and either returns a value, of which
  the source keeps \<^verbatim>\<open>str(result)\<close>, or raises an \<^verbatim>\<open>Exception\<close>, of which the source keeps
  \<^verbatim>\<open>str(e)\<close>. (A keyboard interrupt or a system exit is not an \<^verbatim>\<open>Exception\<close>; no
  handler of \<^verbatim>\<open>tool_use\<close> is about them and the model of a tool does not produce them.)
  \<open>tool_obj\<close> is the identity of the tool object, which is what
  \<^verbatim>\<open>tool in self.mcp_tools\<close> compares.
\<close>

datatype outcome = Returned ustring | Raised ustring

record 'w tool =
  tool_name :: ustring
  tool_obj :: nat
  invoke :: "(ustring \<times> ustring) list \<Rightarrow> 'w \<Rightarrow> outcome \<times> 'w"
  ainvoke :: "(ustring \<times> ustring) list \<Rightarrow> 'w \<Rightarrow> outcome \<times> 'w"

text \<open>An invocation that took place: the tool object, whether it was awaited, the arguments.\<close>

type_synonym invocation = "nat \<times> bool \<times> (ustring \<times> ustring) list"

section \<open>The node \<^verbatim>\<open>tool_use\<close>\<close>

text \<open>
  \<^verbatim>\<open>next((t for t in self.tools if t.name == tool_name), None)\<close>: the first tool of that
  name.
\<close>

definition find_tool :: "'w tool list \<Rightarrow> ustring \<Rightarrow> 'w tool option" where
  "find_tool tools n = find (\<lambda>t. tool_name t = n) tools"

definition is_mcp :: "'w tool list \<Rightarrow> 'w tool \<Rightarrow> bool" where
  "is_mcp mcp_tools t = (tool_obj t \<in> set (map tool_obj mcp_tools))"

text \<open>
  The body of the loop for one tool call: the message it appends to \<^verbatim>\<open>tool_messages\<close>, the
  invocations it made and the world after it. The calls of \<^verbatim>\<open>console.print\<close> only render
  and are left out.
\<close>

definition exec_call ::
  "'w tool list \<Rightarrow> 'w tool list \<Rightarrow> tool_call \<Rightarrow> 'w \<Rightarrow> message \<times> invocation list \<times> 'w" where
  "exec_call tools mcp_tools c w =
     (case find_tool tools (call_name c) of
        None \<Rightarrow>
          (ToolMessage (Str (ustr ''Tool '' @ call_name c @ ustr '' not found'')) (call_id c), [], w)
      | Some t \<Rightarrow>
          (let async = is_mcp mcp_tools t;
               (r, w') = (if async then ainvoke t (call_args c) w else invoke t (call_args c) w)
           in case r of
                Returned s \<Rightarrow>
                  (ToolMessage (Str s) (call_id c), [(tool_obj t, async, call_args c)], w')
              | Raised e \<Rightarrow>
                  (ToolMessage (Str (ustr ''Tool error: '' @ e)) (call_id c),
                   [(tool_obj t, async, call_args c)], w')))"

fun run_calls ::
  "'w tool list \<Rightarrow> 'w tool list \<Rightarrow> tool_call list \<Rightarrow> message list \<Rightarrow> invocation list \<Rightarrow> 'w \<Rightarrow>
   message list \<times> invocation list \<times> 'w" where
  "run_calls tools mcp_tools [] tool_messages invs w = (tool_messages, invs, w)"
| "run_calls tools mcp_tools (c # cs) tool_messages invs w =
     (case exec_call tools mcp_tools c w of
        (m, i, w') \<Rightarrow> run_calls tools mcp_tools cs (tool_messages @ [m]) (invs @ i) w')"

text \<open>
  \<^verbatim>\<open>tool_use(state)\<close>: the update \<^verbatim>\<open>{"messages": tool_messages}\<close> it returns.
  \<^verbatim>\<open>messages[-1]\<close> raises on an empty log, and only an assistant message has
  \<^verbatim>\<open>tool_calls\<close>.
\<close>

definition tool_use ::
  "'w tool list \<Rightarrow> 'w tool list \<Rightarrow> message list \<Rightarrow> 'w \<Rightarrow>
   (exn + message list) \<times> invocation list \<times> 'w" where
  "tool_use tools mcp_tools messages w =
     (if messages = [] then (Inl list_index_error, [], w)
      else case last messages of
        AIMessage c tool_calls \<Rightarrow>
          (case run_calls tools mcp_tools tool_calls [] [] w of
             (tool_messages, invs, w') \<Rightarrow> (Inr tool_messages, invs, w'))
      | m \<Rightarrow> (Inl (no_attribute (class_name m) (ustr ''tool_calls'')), [], w))"





section \<open>\<^verbatim>\<open>run_code\<close>\<close>

text \<open>
  What \<^verbatim>\<open>subprocess.run(..., capture_output=True, text=True, timeout=10)\<close> does: the
  process completes (standard output, standard error, return code), the time limit
  expires (\<^verbatim>\<open>subprocess.TimeoutExpired\<close>), or something else fails with an exception of
  the given message (the interpreter is not found, the path is refused, the output
  cannot be decoded). The run acts on the world outside the program.
\<close>

datatype proc_result = Completed ustring ustring int | TimeoutExpired | ProcException ustring

type_synonym 'w subprocess = "ustring list \<Rightarrow> nat \<Rightarrow> 'w \<Rightarrow> proc_result \<times> 'w"

text \<open>
  \<^verbatim>\<open>run_code(file_path)\<close>: the triple it returns, the commands it spawned and the world
  after it.
\<close>

definition run_code ::
  "'w subprocess \<Rightarrow> ustring \<Rightarrow> 'w \<Rightarrow> (ustring \<times> ustring \<times> int) \<times> ustring list list \<times> 'w" where
  "run_code subprocess_run file_path w =
     (if endswith file_path (ustr ''.py'') then
        (case subprocess_run [ustr ''python'', file_path] 10 w of
           (Completed stdout stderr returncode, w') \<Rightarrow>
             ((stdout, stderr, returncode), [[ustr ''python'', file_path]], w')
         | (TimeoutExpired, w') \<Rightarrow>
             (([], ustr ''Execution timeout'', 1), [[ustr ''python'', file_path]], w')
         | (ProcException e, w') \<Rightarrow>
             (([], e, 1), [[ustr ''python'', file_path]], w'))
      else (([], ustr ''Unsupported file type'', 1), [], w))"

section \<open>The node \<^verbatim>\<open>model_response\<close>: the messages sent to the model\<close>

definition system_message :: message where
  "system_message = SystemMessage (Str (ustr
     ''You MUST call tools. For web search: use search_web(query). For docs: use search_langchain_docs, search_langgraph_docs, search_mcp_docs. For GitHub: use push_folder or quick_push_file. CALL TOOLS DIRECTLY.''))"

text \<open>\<^verbatim>\<open>if len(messages) > 10: messages = messages[-10:]\<close>\<close>

definition trim :: "message list \<Rightarrow> message list" where
  "trim messages =
     (if length messages > 10 then drop (length messages - 10) messages else messages)"

fun is_SystemMessage :: "message \<Rightarrow> bool" where
  "is_SystemMessage (SystemMessage c) = True"
| "is_SystemMessage m = False"

text \<open>
  The system message is put in front, or replaces a system message that is first. On an
  empty list \<^verbatim>\<open>messages[0]\<close> raises.
\<close>

definition with_system :: "message list \<Rightarrow> exn + message list" where
  "with_system messages =
     (if length messages = 1 then Inr (system_message # messages)
      else if messages = [] then Inl list_index_error
      else if is_SystemMessage (messages ! 0) then Inr (messages[0 := system_message])
      else Inr (system_message # messages))"

fun content_of :: "message \<Rightarrow> content" where
  "content_of (HumanMessage c) = c"
| "content_of (AIMessage c calls) = c"
| "content_of (ToolMessage c i) = c"
| "content_of (SystemMessage c) = c"

definition github_words :: "ustring list" where
  "github_words = [ustr ''push'', ustr ''upload'', ustr ''github'', ustr ''repo'']"

definition directive :: ustring where
  "directive = [10, 10] @
     ustr ''[SYSTEM: You MUST call the appropriate tool NOW. Do not respond with text.]''"

text \<open>
  \<^verbatim>\<open>any(word in last_msg.lower() for word in ['push', 'upload', 'github', 'repo'])\<close>
\<close>

definition wants_github :: "ustring \<Rightarrow> bool" where
  "wants_github last_msg = list_ex (\<lambda>word. contains (lower last_msg) word) github_words"

text \<open>
  The check of the last message, \<^verbatim>\<open>messages[-1]\<close>, of a list that is not empty. A content
  that is a list of blocks has no \<^verbatim>\<open>lower\<close>.
\<close>

definition force_tool :: "message list \<Rightarrow> exn + message list" where
  "force_tool messages =
     (case content_of (last messages) of
        Blocks bs \<Rightarrow> Inl (no_attribute (ustr ''list'') (ustr ''lower''))
      | Str last_msg \<Rightarrow>
          if wants_github last_msg
          then Inr (messages[length messages - 1 := HumanMessage (Str (last_msg @ directive))])
          else Inr messages)"

text \<open>The argument of \<^verbatim>\<open>self.llm_with_tools.invoke\<close>, or the exception raised before it.\<close>

definition model_input :: "message list \<Rightarrow> exn + message list" where
  "model_input messages =
     (case with_system (trim messages) of
        Inl e \<Rightarrow> Inl e
      | Inr ms \<Rightarrow> force_tool ms)"

section \<open>The numbered-option formatter\<close>

text \<open>
  \<^verbatim>\<open>s.split(sep)\<close> for a separator that is not empty, scanning from the left: \<open>k\<close> counts
  the characters of a separator still to skip, \<open>cur\<close> is the piece being read.
\<close>

fun split_from :: "ustring \<Rightarrow> nat \<Rightarrow> ustring \<Rightarrow> ustring \<Rightarrow> ustring list" where
  "split_from sep k cur [] = [cur]"
| "split_from sep k cur (c # cs) =
     (if 0 < k then split_from sep (k - 1) cur cs
      else if startswith (c # cs) sep then cur # split_from sep (length sep - 1) [] cs
      else split_from sep 0 (cur @ [c]) cs)"

definition split :: "ustring \<Rightarrow> ustring \<Rightarrow> ustring list" where
  "split sep s = split_from sep 0 [] s"

text \<open>\<^verbatim>\<open>sep.join(parts)\<close>\<close>

fun join :: "ustring \<Rightarrow> ustring list \<Rightarrow> ustring" where
  "join sep [] = []"
| "join sep [p] = p"
| "join sep (p # q # ps) = p @ sep @ join sep (q # ps)"

text \<open>
  The character class of the pattern. In the source file it holds the three code points
  U+201A, U+00C4 and U+00A2 (the file's bytes there are E2 80 9A, C3 84, C2 A2), then the
  hyphen and the asterisk.
\<close>

definition is_bullet :: "nat \<Rightarrow> bool" where
  "is_bullet c = (c = 0x201A \<or> c = 0xC4 \<or> c = 0xA2 \<or> c = 45 \<or> c = 42)"

text \<open>
  \<^verbatim>\<open>re.match(r'^(\s*)[...]\s+(.+)$', line)\<close> on a line without a line feed: the two groups
  when it matches. The first group is the leading white space; one character of the class
  follows; the second white space run gives back its last character when nothing else is
  left for the second group.
\<close>

definition bullet_match :: "ustring \<Rightarrow> (ustring \<times> ustring) option" where
  "bullet_match line =
     (let indent = takeWhile isspace line; rest = dropWhile isspace line
      in case rest of
           [] \<Rightarrow> None
         | b # after \<Rightarrow>
             if \<not> is_bullet b then None
             else
               let gap = takeWhile isspace after; tail = dropWhile isspace after
               in if gap = [] then None
                  else if tail \<noteq> [] then Some (indent, tail)
                  else if 2 \<le> length gap then Some (indent, [last gap])
                  else None)"

text \<open>
  A \<^verbatim>\<open>dict\<close> from strings to strings, in insertion order: \<^verbatim>\<open>d[k] = v\<close>, \<^verbatim>\<open>d[k]\<close> (as
  \<open>map_of\<close>), \<^verbatim>\<open>k in d\<close> and \<^verbatim>\<open>len(d)\<close> (as \<open>length\<close>).
\<close>

type_synonym dict = "(ustring \<times> ustring) list"

fun dict_set :: "ustring \<Rightarrow> ustring \<Rightarrow> dict \<Rightarrow> dict" where
  "dict_set k v [] = [(k, v)]"
| "dict_set k v ((k', v') # d) = (if k' = k then (k, v) # d else (k', v') # dict_set k v d)"

definition dict_in :: "ustring \<Rightarrow> dict \<Rightarrow> bool" where
  "dict_in k d = (map_of d k \<noteq> None)"

text \<open>What is shown on the console, and the arguments of a push.\<close>

datatype shown =
    Print ustring
  | Panel ustring ustring
  | Traceback exn
  | Screen ustring

record push_args =
  owner :: ustring
  repo :: ustring
  folder_path :: ustring
  branch :: ustring
  commit_message :: ustring

text \<open>
  The state of a session: the Last-Options Map \<^verbatim>\<open>self.last_options\<close>, the thread
  identifier of \<^verbatim>\<open>config\<close>, what has been shown, and a record of the runs of the agent
  workflow (thread identifier and user message) and of the direct pushes.
\<close>

record session =
  last_options :: dict
  config :: ustring
  console :: "shown list"
  agent_calls :: "(ustring \<times> message) list"
  pushes :: "push_args list"

fun block_text :: "block \<Rightarrow> ustring list" where
  "block_text (TextAttr t) = [t]"
| "block_text (TextDict t) = [t]"
| "block_text (StrBlock t) = [t]"
| "block_text OtherBlock = []"

fun text_of :: "content \<Rightarrow> ustring" where
  "text_of (Str s) = s"
| "text_of (Blocks bs) = join [10] (concat (map block_text bs))"

text \<open>
  The loop over the lines: the option number, the map and the formatted lines so far.
\<close>

fun format_lines :: "ustring list \<Rightarrow> nat \<Rightarrow> dict \<Rightarrow> ustring list \<Rightarrow> ustring list \<times> dict" where
  "format_lines [] option_num opts formatted_lines = (formatted_lines, opts)"
| "format_lines (line # lines) option_num opts formatted_lines =
     (case bullet_match line of
        Some (indent, content) \<Rightarrow>
          format_lines lines (option_num + 1) (dict_set (str_nat option_num) content opts)
            (formatted_lines @
               [indent @ ustr ''**'' @ str_nat option_num @ ustr ''.** '' @ content])
      | None \<Rightarrow> format_lines lines option_num opts (formatted_lines @ [line]))"

definition tip :: "nat \<Rightarrow> ustring" where
  "tip n = [10, 10] @ ustr ''*Tip: Type a number (1-'' @ str_nat n @
     ustr '') to select an option*''"

text \<open>\<^verbatim>\<open>_format_with_numbers(text)\<close>: the text it returns and the session after it.\<close>

definition format_with_numbers :: "content \<Rightarrow> session \<Rightarrow> ustring \<times> session" where
  "format_with_numbers text a =
     (let a0 = a\<lparr>last_options := []\<rparr>;
          (formatted_lines, opts) = format_lines (split [10] (text_of text)) 1 (last_options a0) [];
          a1 = a0\<lparr>last_options := opts\<rparr>;
          result = join [10] formatted_lines
      in (if last_options a1 \<noteq> [] then result @ tip (length (last_options a1)) else result, a1))"

text \<open>The map the formatter builds from a content.\<close>

definition options_of :: "content \<Rightarrow> dict" where
  "options_of c = snd (format_lines (split [10] (text_of c)) 1 [] [])"

text \<open>
  The formatter in the words of the specification, to compare the loop with: the lines
  renumbered from a first number on, the contents of the bullet lines in order, and the
  number a decimal numeral stands for.
\<close>

fun number_lines :: "nat \<Rightarrow> ustring list \<Rightarrow> ustring list" where
  "number_lines n [] = []"
| "number_lines n (line # lines) =
     (case bullet_match line of
        Some (indent, content) \<Rightarrow>
          (indent @ ustr ''**'' @ str_nat n @ ustr ''.** '' @ content) # number_lines (Suc n) lines
      | None \<Rightarrow> line # number_lines n lines)"

definition bullet_contents :: "ustring list \<Rightarrow> ustring list" where
  "bullet_contents lines = map snd (List.map_filter bullet_match lines)"

definition numeral_value :: "ustring \<Rightarrow> nat" where
  "numeral_value ds = foldl (\<lambda>a d. 10 * a + (d - 48)) 0 ds"

text \<open>
  \<^verbatim>\<open>if response.content:\<close> and what \<^verbatim>\<open>model_response\<close> then does: format the content,
  which rebuilds the map, and show the formatted text.
\<close>

fun truthy :: "content \<Rightarrow> bool" where
  "truthy (Str s) = (s \<noteq> [])"
| "truthy (Blocks bs) = (bs \<noteq> [])"

definition show_response :: "content \<Rightarrow> session \<Rightarrow> session" where
  "show_response c a =
     (if truthy c then
        (case format_with_numbers c a of
           (formatted_content, a') \<Rightarrow>
             a'\<lparr>console := console a' @
                  [Panel formatted_content (ustr ''[bold cyan]Assistant[/bold cyan]'')]\<rparr>)
      else a)"

text \<open>
  \<^verbatim>\<open>model_response(state)\<close>, with the model as a function of the messages it is sent and
  of the world: the update it returns, or the exception that leaves it.
\<close>

definition model_response ::
  "(message list \<Rightarrow> 'w \<Rightarrow> (exn + message) \<times> 'w) \<Rightarrow> message list \<Rightarrow> session \<Rightarrow> 'w \<Rightarrow>
   (exn + message list) \<times> session \<times> 'w" where
  "model_response llm_with_tools messages a w =
     (case model_input messages of
        Inl e \<Rightarrow> (Inl e, a, w)
      | Inr ms \<Rightarrow>
          (case llm_with_tools ms w of
             (Inl e, w') \<Rightarrow> (Inl e, a, w')
           | (Inr response, w') \<Rightarrow>
               (Inr [response], show_response (content_of response) a, w')))"

section \<open>The session driver \<^verbatim>\<open>run\<close>\<close>

text \<open>
  \<^verbatim>\<open>str.isdigit\<close> on ASCII: the source asks it only together with membership in the map,
  whose keys are decimal numerals.
\<close>

definition isdigit :: "ustring \<Rightarrow> bool" where
  "isdigit s = (s \<noteq> [] \<and> list_all (\<lambda>c. 48 \<le> c \<and> c \<le> 57) s)"

text \<open>
  The option an input selects:
  \<^verbatim>\<open>user_input.strip().isdigit() and user_input.strip() in self.last_options\<close>.
\<close>

definition select_option :: "dict \<Rightarrow> ustring \<Rightarrow> ustring option" where
  "select_option opts user_input =
     (if isdigit (strip user_input) \<and> dict_in (strip user_input) opts
      then map_of opts (strip user_input) else None)"

text \<open>\<^verbatim>\<open>_display_quick_start\<close> sets the first map of a session.\<close>

definition display_quick_start :: "session \<Rightarrow> session" where
  "display_quick_start a =
     a\<lparr>last_options :=
         [(ustr ''1'', ustr ''List all files in current directory''),
          (ustr ''2'', ustr ''Show available tools''),
          (ustr ''3'', ustr ''Scan entire project''),
          (ustr ''4'', ustr ''Read the README.md file''),
          (ustr ''5'', ustr ''Show advanced help'')],
       console := console a @ [Screen (ustr ''quick start'')]\<rparr>"

text \<open>\<^verbatim>\<open>os.path.join(a, b)\<close> on a POSIX system.\<close>

definition path_join :: "ustring \<Rightarrow> ustring \<Rightarrow> ustring" where
  "path_join a b =
     (if startswith b (ustr ''/'') then b
      else if a = [] \<or> endswith a (ustr ''/'') then a @ b
      else a @ ustr ''/'' @ b)"

text \<open>
  What the driver calls: the table of direct commands \<^verbatim>\<open>handle_direct_command\<close>, taken
  as an action on the world that returns (\<open>None\<close>) or raises and does not touch the map
  or \<^verbatim>\<open>config\<close>; the two GitHub tools; a run of the compiled workflow; the working
  directory and the random bytes. A run of the workflow gives the contents of the assistant
  responses its \<^verbatim>\<open>model_response\<close> steps passed to \<open>show_response\<close>, in order, and the
  exception that ended it, if one did. All of them act on the world.
\<close>

record 'w env =
  handle_direct_command :: "ustring \<Rightarrow> 'w \<Rightarrow> exn option \<times> 'w"
  list_my_repos :: "'w \<Rightarrow> (exn + ustring) \<times> 'w"
  push_folder :: "push_args \<Rightarrow> 'w \<Rightarrow> (exn + ustring) \<times> 'w"
  agent_ainvoke :: "ustring \<Rightarrow> message \<Rightarrow> 'w \<Rightarrow> (content list \<times> exn option) \<times> 'w"
  getcwd :: "'w \<Rightarrow> ustring"
  urandom_hex :: "'w \<Rightarrow> ustring \<times> 'w"

definition say :: "shown list \<Rightarrow> session \<Rightarrow> session" where
  "say out a = a\<lparr>console := console a @ out\<rparr>"

definition goodbye :: shown where
  "goodbye = Print ([10] @ ustr ''[bold cyan]Goodbye![/bold cyan]'' @ [10])"

datatype flow = Next | Stop

text \<open>
  The body of the \<^verbatim>\<open>try\<close> for one line of input: \<open>Inr Next\<close> for \<^verbatim>\<open>continue\<close> and for
  reaching the end of the body, \<open>Inr Stop\<close> for \<^verbatim>\<open>break\<close>, \<open>Inl e\<close> when \<open>e\<close> is raised.
\<close>

definition turn :: "'w env \<Rightarrow> ustring \<Rightarrow> session \<Rightarrow> 'w \<Rightarrow> (exn + flow) \<times> session \<times> 'w" where
  "turn env user_input a w =
     (if user_input = [] \<or> strip user_input = [] then (Inr Next, a, w)
      else if lower user_input \<in> set [ustr ''exit'', ustr ''quit'', ustr ''q''] then
        (Inr Stop, say [goodbye] a, w)
      else if lower user_input = ustr ''help'' then (Inr Next, say [Screen (ustr ''help'')] a, w)
      else if lower user_input = ustr ''tools'' then (Inr Next, say [Screen (ustr ''tools'')] a, w)
      else if lower user_input = ustr ''clear'' then
        (case urandom_hex env w of
           (h, w') \<Rightarrow>
             (Inr Next,
              say [Print (ustr ''[green]'' @ [0x201A, 0xFA, 0xEC] @
                          ustr '' Conversation history cleared[/green]'')]
                (a\<lparr>config := ustr ''session_'' @ h\<rparr>),
              w'))
      else
        (let selected = select_option (last_options a) user_input;
             a = (case selected of
                    Some selected_option \<Rightarrow>
                      say [Print (ustr ''[green]Selected:[/green] '' @ selected_option @ [10])] a
                  | None \<Rightarrow> a);
             user_input = (case selected of Some selected_option \<Rightarrow> selected_option
                           | None \<Rightarrow> user_input)
         in
           if startswith user_input (ustr ''!'') then
             (case handle_direct_command env (tl user_input) w of
                (None, w') \<Rightarrow> (Inr Next, a, w')
              | (Some e, w') \<Rightarrow> (Inl e, a, w'))
           else if contains (lower user_input) (ustr ''my'') \<and>
                   contains (lower user_input) (ustr ''repo'') \<and>
                   contains (lower user_input) (ustr ''list'') then
             (let a = say [Print ([10] @
                        ustr ''[bold yellow]Fetching your repositories...[/bold yellow]'' @ [10])] a
              in case list_my_repos env w of
                   (Inl e, w') \<Rightarrow> (Inl e, a, w')
                 | (Inr result, w') \<Rightarrow> (Inr Next, a, w'))
           else if contains (lower user_input) (ustr ''push'') \<and>
                   contains (lower user_input) (ustr ''folder'') then
             (let folder_name =
                    (if contains (lower user_input) (ustr ''codeassistent'')
                     then ustr ''codeAssistent'' else ustr ''.'');
                  folder_path =
                    (if folder_name \<noteq> ustr ''.'' then path_join (getcwd env w) folder_name
                     else getcwd env w);
                  a = say [Print ([10] @ ustr ''[bold yellow]Executing:[/bold yellow] push_folder''),
                           Print (ustr ''[dim]Folder: '' @ folder_path @ ustr ''[/dim]'' @ [10])] a;
                  request = \<lparr>owner = ustr ''Abhitheshek'', repo = ustr ''terminalcodeAssistant'',
                             folder_path = folder_path, branch = ustr ''main'',
                             commit_message = ustr ''Upload codeAssistent folder''\<rparr>;
                  a = a\<lparr>pushes := pushes a @ [request]\<rparr>
              in case push_folder env request w of
                   (Inl e, w') \<Rightarrow> (Inl e, a, w')
                 | (Inr result, w') \<Rightarrow>
                     (Inr Next, say [Panel result (ustr ''[bold green]Result[/bold green]'')] a, w'))
           else
             (let human_message = HumanMessage (Str user_input);
                  a = a\<lparr>agent_calls := agent_calls a @ [(config a, human_message)]\<rparr>
              in case agent_ainvoke env (config a) human_message w of
                   ((responses, raised), w') \<Rightarrow>
                     (case raised of None \<Rightarrow> Inr Next | Some e \<Rightarrow> Inl e,
                      foldl (\<lambda>a c. show_response c a) a responses, w'))))"

text \<open>
  What \<^verbatim>\<open>Prompt.ask\<close> gives: a line, or one of the two exceptions the driver catches
  around it.
\<close>

datatype prompt = Entered ustring | EndOfInput | Interrupted

datatype step = Continue | Break | Escape exn

text \<open>What the handler of \<^verbatim>\<open>Exception\<close> in the driver prints.\<close>

definition error_report :: "exn \<Rightarrow> shown list" where
  "error_report e =
     [Print (ustr ''[bold red]Error: '' @ str_exn e @ ustr ''[/bold red]''),
      Traceback e,
      Print (ustr ''[yellow]Continuing... Type '' @ [39] @ ustr ''exit'' @ [39] @
             ustr '' to quit[/yellow]'')]"

text \<open>One iteration of \<^verbatim>\<open>while True\<close>, with its two exception handlers.\<close>

definition iteration :: "'w env \<Rightarrow> prompt \<Rightarrow> session \<Rightarrow> 'w \<Rightarrow> step \<times> session \<times> 'w" where
  "iteration env p a w =
     (let a = say [Print []] a
      in case p of
           Entered user_input \<Rightarrow>
             (case turn env user_input a w of
                (Inr Next, a', w') \<Rightarrow> (Continue, a', w')
              | (Inr Stop, a', w') \<Rightarrow> (Break, a', w')
              | (Inl e, a', w') \<Rightarrow>
                  if e = KeyboardInterrupt then (Break, say [goodbye] a', w')
                  else if is_Exception e then (Continue, say (error_report e) a', w')
                  else (Escape e, a', w'))
         | EndOfInput \<Rightarrow> (Break, say [goodbye] a, w)
         | Interrupted \<Rightarrow> (Break, say [goodbye] a, w))"

text \<open>
  The loop, driven by what is entered: \<open>Waiting\<close> when everything entered so far has been
  processed and the loop is asking for the next input, \<open>Ended\<close> after a \<^verbatim>\<open>break\<close>,
  \<open>Aborted e\<close> when the exception \<open>e\<close> left \<^verbatim>\<open>run\<close>.
\<close>

datatype status = Waiting | Ended | Aborted exn

fun run :: "'w env \<Rightarrow> prompt list \<Rightarrow> session \<Rightarrow> 'w \<Rightarrow> status \<times> session \<times> 'w" where
  "run env [] a w = (Waiting, a, w)"
| "run env (p # ps) a w =
     (case iteration env p a w of
        (Continue, a', w') \<Rightarrow> run env ps a' w'
      | (Break, a', w') \<Rightarrow> (Ended, a', w')
      | (Escape e, a', w') \<Rightarrow> (Aborted e, a', w'))"

section \<open>The auto-fix loop \<^verbatim>\<open>fix_errors_loop\<close>\<close>

text \<open>
  The world of the loop: the text files on disk, by path, and everything else. A spawned
  process acts on all of it; the model acts on the rest only.
\<close>

record 'x world =
  files :: "ustring \<Rightarrow> ustring option"
  outside :: 'x

text \<open>
  \<^verbatim>\<open>open(path, 'r').read()\<close>, which raises when there is no such file, and
  \<^verbatim>\<open>open(path, 'w').write(data)\<close>.
\<close>

definition read_file :: "ustring \<Rightarrow> 'x world \<Rightarrow> exn + ustring" where
  "read_file path w =
     (case files w path of
        None \<Rightarrow> Inl (FileNotFoundError
                 (ustr ''[Errno 2] No such file or directory: '' @ [39] @ path @ [39]))
      | Some data \<Rightarrow> Inr data)"

definition write_file :: "ustring \<Rightarrow> ustring \<Rightarrow> 'x world \<Rightarrow> 'x world" where
  "write_file path data w = w\<lparr>files := (files w)(path \<mapsto> data)\<rparr>"

text \<open>
  The code taken out of the reply of the model: what stands between the first
  \<^verbatim>\<open>```python\<close> (or else the first \<^verbatim>\<open>```\<close>) and the next \<^verbatim>\<open>```\<close>, stripped.
\<close>

definition fence :: ustring where
  "fence = [96, 96, 96]"

definition extract_code :: "ustring \<Rightarrow> exn + ustring" where
  "extract_code fixed_code =
     (if contains fixed_code (fence @ ustr ''python'') then
        (case split (fence @ ustr ''python'') fixed_code of
           p0 # p1 # ps \<Rightarrow>
             (case split fence p1 of q0 # qs \<Rightarrow> Inr (strip q0) | [] \<Rightarrow> Inl list_index_error)
         | _ \<Rightarrow> Inl list_index_error)
      else if contains fixed_code fence then
        (case split fence fixed_code of
           p0 # p1 # ps \<Rightarrow>
             (case split fence p1 of q0 # qs \<Rightarrow> Inr (strip q0) | [] \<Rightarrow> Inl list_index_error)
         | _ \<Rightarrow> Inl list_index_error)
      else Inr fixed_code)"

definition fix_prompt :: "ustring \<Rightarrow> ustring \<Rightarrow> ustring" where
  "fix_prompt stderr content =
     ustr ''Fix this error:'' @ [10, 10] @ ustr ''ERROR:'' @ [10] @ stderr @ [10, 10] @
     ustr ''CODE:'' @ [10] @ content @ [10, 10] @ ustr ''Provide ONLY corrected code.''"

datatype attempt = Succeeded | Applied | Failed exn

text \<open>
  One attempt of the loop: the code ran with return code 0 (the loop returns \<^verbatim>\<open>True\<close>), a
  fix was applied (the loop goes on), or an exception left the loop. The model
  \<^verbatim>\<open>self.llm.invoke\<close> is a function of the messages and of the world outside the files; its
  reply is a string. The console output is left out.
\<close>

definition fix_attempt ::
  "'x world subprocess \<Rightarrow> (message list \<Rightarrow> 'x \<Rightarrow> (exn + ustring) \<times> 'x) \<Rightarrow> ustring \<Rightarrow> 'x world \<Rightarrow>
   attempt \<times> 'x world" where
  "fix_attempt subprocess_run llm_invoke file_path w =
     (case run_code subprocess_run file_path w of
        ((stdout, stderr, code), spawned, w1) \<Rightarrow>
          if code = 0 then (Succeeded, w1)
          else
            (case read_file file_path w1 of
               Inl e \<Rightarrow> (Failed e, w1)
             | Inr content \<Rightarrow>
                 (case llm_invoke [HumanMessage (Str (fix_prompt stderr content))] (outside w1) of
                    (Inl e, x) \<Rightarrow> (Failed e, w1\<lparr>outside := x\<rparr>)
                  | (Inr reply, x) \<Rightarrow>
                      (case extract_code reply of
                         Inl e \<Rightarrow> (Failed e, w1\<lparr>outside := x\<rparr>)
                       | Inr fixed_code \<Rightarrow>
                           (Applied,
                            write_file file_path fixed_code
                              (write_file (file_path @ ustr ''.backup'') content
                                 (w1\<lparr>outside := x\<rparr>)))))))"

text \<open>
  \<^verbatim>\<open>for attempt in range(1, self.max_retries + 1)\<close>, with the attempts still to make:
  \<^verbatim>\<open>True\<close> after a successful run, \<^verbatim>\<open>False\<close> when the attempts are used up.
\<close>

fun fix_loop ::
  "'x world subprocess \<Rightarrow> (message list \<Rightarrow> 'x \<Rightarrow> (exn + ustring) \<times> 'x) \<Rightarrow> ustring \<Rightarrow> nat \<Rightarrow>
   'x world \<Rightarrow> (exn + bool) \<times> 'x world" where
  "fix_loop subprocess_run llm_invoke file_path 0 w = (Inr False, w)"
| "fix_loop subprocess_run llm_invoke file_path (Suc n) w =
     (case fix_attempt subprocess_run llm_invoke file_path w of
        (Succeeded, w') \<Rightarrow> (Inr True, w')
      | (Applied, w') \<Rightarrow> fix_loop subprocess_run llm_invoke file_path n w'
      | (Failed e, w') \<Rightarrow> (Inl e, w'))"

definition max_retries :: nat where
  "max_retries = 3"

definition fix_errors_loop ::
  "'x world subprocess \<Rightarrow> (message list \<Rightarrow> 'x \<Rightarrow> (exn + ustring) \<times> 'x) \<Rightarrow> ustring \<Rightarrow>
   'x world \<Rightarrow> (exn + bool) \<times> 'x world" where
  "fix_errors_loop subprocess_run llm_invoke file_path w =
     fix_loop subprocess_run llm_invoke file_path max_retries w"

section \<open>Example inputs\<close>

text \<open>
  A registry and an assistant message for the examples: a tool that returns, a tool that
  raises, and a call of a name that is not registered. The world counts the invocations.
\<close>

definition demo_tools :: "nat tool list" where
  "demo_tools =
     [\<lparr>tool_name = ustr ''search_web'', tool_obj = 0,
       invoke = (\<lambda>a w. (Returned (ustr ''No results found''), Suc w)),
       ainvoke = (\<lambda>a w. (Raised (ustr ''not an MCP tool''), w))\<rparr>,
      \<lparr>tool_name = ustr ''read_file'', tool_obj = 1,
       invoke = (\<lambda>a w. (Raised (ustr ''No such file''), Suc w)),
       ainvoke = (\<lambda>a w. (Raised (ustr ''not an MCP tool''), w))\<rparr>]"

definition demo_calls :: "tool_call list" where
  "demo_calls =
     [\<lparr>call_name = ustr ''search_web'', call_args = [(ustr ''query'', ustr ''x'')],
       call_id = ustr ''a''\<rparr>,
      \<lparr>call_name = ustr ''missing_tool'', call_args = [], call_id = ustr ''b''\<rparr>,
      \<lparr>call_name = ustr ''read_file'', call_args = [(ustr ''path'', ustr ''f'')],
       call_id = ustr ''c''\<rparr>]"

definition demo_log :: "message list" where
  "demo_log = [HumanMessage (Str (ustr ''find x'')), AIMessage (Str []) demo_calls]"



definition demo_tool_log :: "message list" where
  "demo_tool_log =
     [HumanMessage (Str (ustr ''push app.py'')),
      AIMessage (Str [])
        [\<lparr>call_name = ustr ''quick_push_file'', call_args = [(ustr ''file_path'', ustr ''app.py'')],
          call_id = ustr ''a''\<rparr>],
      ToolMessage (Str (ustr ''Pushed app.py to github'')) (ustr ''a'')]"





text \<open>
  An environment and a session for the examples. The workflow fails at once (as when the
  model cannot be reached); the push tool reports the folder it was given; the world
  counts the calls.
\<close>

definition demo_env :: "nat env" where
  "demo_env =
     \<lparr>handle_direct_command = (\<lambda>cmd w. (None, Suc w)),
      list_my_repos = (\<lambda>w. (Inr (ustr ''no repositories''), Suc w)),
      push_folder = (\<lambda>request w. (Inr (ustr ''Pushed '' @ folder_path request), Suc w)),
      agent_ainvoke = (\<lambda>thread m w. (([], Some (Exception (ustr ''rate limit''))), Suc w)),
      getcwd = (\<lambda>w. ustr ''/home/u/proj''),
      urandom_hex = (\<lambda>w. (ustr ''0a1b2c3d'', w))\<rparr>"

definition demo_session :: session where
  "demo_session =
     \<lparr>last_options = [], config = ustr ''default_session'', console = [], agent_calls = [],
      pushes = []\<rparr>"

text \<open>A session whose map was built from an assistant response with one bullet.\<close>

definition demo_bulleted :: session where
  "demo_bulleted = snd (format_with_numbers (Str (ustr ''- !scan'')) demo_session)"

section \<open>Properties of \<^verbatim>\<open>tool_use\<close>\<close>










text \<open>The scenario of the specification, evaluated.\<close>

lemma tool_use_demo:
  "tool_use demo_tools [] demo_log (0::nat) =
     (Inr [ToolMessage (Str (ustr ''No results found'')) (ustr ''a''),
           ToolMessage (Str (ustr ''Tool missing_tool not found'')) (ustr ''b''),
           ToolMessage (Str (ustr ''Tool error: No such file'')) (ustr ''c'')],
      [(0, False, [(ustr ''query'', ustr ''x'')]), (1, False, [(ustr ''path'', ustr ''f'')])],
      2)"
  by (simp add: tool_use_def demo_log_def demo_calls_def demo_tools_def exec_call_def
      find_tool_def is_mcp_def ustr_def)




section \<open>Properties of \<^verbatim>\<open>run_code\<close>\<close>



section \<open>Properties of the messages sent to the model\<close>









text \<open>
  When the last message is a user message, which is the case at the first model call of a
  turn, the check rewrites exactly that message, and only when it holds one of the words.
\<close>

lemma force_tool_last_user:
  assumes "messages \<noteq> []" and "last messages = HumanMessage (Str s)"
  shows "force_tool messages =
           Inr (if wants_github s
                then butlast messages @ [HumanMessage (Str (s @ directive))]
                else messages)"
proof -
  have "messages[length messages - 1 := m] = butlast messages @ [m]" for m
    using assms(1) by (induction messages rule: rev_induct) auto
  then show ?thesis using assms(2) by (simp add: force_tool_def)
qed

text \<open>
  Claim C7 at a log whose last message is a tool result (the second model call of a turn).
  The most recent user message holds \<^verbatim>\<open>push\<close> and is sent as it is, while the tool result,
  which holds \<^verbatim>\<open>github\<close>, is replaced by a user message with the directive appended.
\<close>

theorem model_input_rewrites_tool_result:
  "wants_github (ustr ''push app.py'') \<and>
   model_input demo_tool_log =
     Inr [system_message,
          HumanMessage (Str (ustr ''push app.py'')),
          AIMessage (Str [])
            [\<lparr>call_name = ustr ''quick_push_file'',
              call_args = [(ustr ''file_path'', ustr ''app.py'')], call_id = ustr ''a''\<rparr>],
          HumanMessage (Str (ustr ''Pushed app.py to github'' @ directive))]"
  by (simp add: model_input_def demo_tool_log_def trim_def with_system_def force_tool_def
      wants_github_def github_words_def lower_def lower_cp_def ustr_def)

section \<open>Properties of the auto-fix loop\<close>




section \<open>Properties of the session driver\<close>
















section \<open>Properties of the Last-Options Map\<close>

lemma format_with_numbers_session:
  "snd (format_with_numbers c a) = a\<lparr>last_options := options_of c\<rparr>"
  by (simp add: format_with_numbers_def options_of_def Let_def split: prod.splits)

lemma show_response_fields:
  "agent_calls (show_response c a) = agent_calls a"
  "pushes (show_response c a) = pushes a"
  "config (show_response c a) = config a"
  "last_options (show_response c a) = (if truthy c then options_of c else last_options a)"
proof -
  obtain f a' where fa: "format_with_numbers c a = (f, a')"
    by (cases "format_with_numbers c a") auto
  then have a': "a' = a\<lparr>last_options := options_of c\<rparr>"
    using format_with_numbers_session [of c a] by simp
  show "agent_calls (show_response c a) = agent_calls a"
    "pushes (show_response c a) = pushes a"
    "config (show_response c a) = config a"
    "last_options (show_response c a) = (if truthy c then options_of c else last_options a)"
    by (simp_all add: show_response_def fa a')
qed

lemma show_responses_fields:
  "agent_calls (foldl (\<lambda>a c. show_response c a) a cs) = agent_calls a"
  "last_options (foldl (\<lambda>a c. show_response c a) a cs) = last_options a \<or>
   (\<exists>c \<in> set cs. truthy c \<and> last_options (foldl (\<lambda>a c. show_response c a) a cs) = options_of c)"
proof (induction cs arbitrary: a)
  case Nil
  {
    case 1
    then show ?case by simp
  next
    case 2
    then show ?case by simp
  }
next
  case (Cons c cs)
  {
    case 1
    then show ?case using Cons.IH(1) [of "show_response c a"] by (simp add: show_response_fields)
  next
    case 2
    then show ?case using Cons.IH(2) [of "show_response c a"]
      by (auto simp: show_response_fields split: if_splits)
  }
qed


lemma turn_options:
  assumes "turn env user_input a w = (r, a', w')"
  shows "agent_calls a' = agent_calls a \<longrightarrow> last_options a' = last_options a"
    and "last_options a' = last_options a \<or> (\<exists>c. truthy c \<and> last_options a' = options_of c)"
proof -
  let ?sel = "select_option (last_options a) user_input"
  let ?a = "case ?sel of
              Some selected_option \<Rightarrow>
                say [Print (ustr ''[green]Selected:[/green] '' @ selected_option @ [10])] a
            | None \<Rightarrow> a"
  let ?u = "case ?sel of Some selected_option \<Rightarrow> selected_option | None \<Rightarrow> user_input"
  have sel: "last_options ?a = last_options a" "agent_calls ?a = agent_calls a"
    by (simp_all add: say_def split: option.splits)
  consider (early) "last_options a' = last_options a" "agent_calls a' = agent_calls a"
    | (agent) rs where
        "a' = foldl (\<lambda>a c. show_response c a)
                (?a\<lparr>agent_calls := agent_calls ?a @ [(config ?a, HumanMessage (Str ?u))]\<rparr>) rs"
  proof -
    obtain rs raised w1 where ag:
      "agent_ainvoke env (config ?a) (HumanMessage (Str ?u)) w = ((rs, raised), w1)"
      by (metis surj_pair)
    show ?thesis
      using assms sel ag
      by (cases ?sel)
        (auto simp: turn_def Let_def say_def intro: that
          simp del: contains.simps split: if_splits prod.splits option.splits sum.splits)
  qed
  then have both:
    "(agent_calls a' = agent_calls a \<longrightarrow> last_options a' = last_options a) \<and>
     (last_options a' = last_options a \<or> (\<exists>c. truthy c \<and> last_options a' = options_of c))"
  proof cases
    case early
    then show ?thesis by simp
  next
    case agent
    let ?b = "?a\<lparr>agent_calls := agent_calls ?a @ [(config ?a, HumanMessage (Str ?u))]\<rparr>"
    have "agent_calls a' \<noteq> agent_calls a"
      using agent sel(2) by (simp add: show_responses_fields(1))
    moreover have "last_options ?b = last_options a" using sel(1) by simp
    then have "last_options a' = last_options a \<or> (\<exists>c. truthy c \<and> last_options a' = options_of c)"
      using show_responses_fields(2) [of ?b rs] agent by auto
    ultimately show ?thesis by simp
  qed
  show "agent_calls a' = agent_calls a \<longrightarrow> last_options a' = last_options a"
    using both by simp
  show "last_options a' = last_options a \<or> (\<exists>c. truthy c \<and> last_options a' = options_of c)"
    using both by simp
qed

lemma iteration_options:
  assumes "iteration env p a w = (st, a', w')"
  shows "agent_calls a' = agent_calls a \<longrightarrow> last_options a' = last_options a"
    and "last_options a' = last_options a \<or> (\<exists>c. truthy c \<and> last_options a' = options_of c)"
proof -
  have both:
    "(agent_calls a' = agent_calls a \<longrightarrow> last_options a' = last_options a) \<and>
     (last_options a' = last_options a \<or> (\<exists>c. truthy c \<and> last_options a' = options_of c))"
  proof (cases p)
    case (Entered user_input)
    obtain r a1 w1 where t: "turn env user_input (say [Print []] a) w = (r, a1, w1)"
      by (metis prod_cases3)
    have a1: "last_options a' = last_options a1" "agent_calls a' = agent_calls a1"
      using assms Entered t
      by (auto simp: iteration_def Let_def say_def split: sum.splits flow.splits if_splits)
    have "last_options (say [Print []] a) = last_options a"
      "agent_calls (say [Print []] a) = agent_calls a"
      by (simp_all add: say_def)
    then show ?thesis using turn_options [OF t] a1 by simp
  next
    case EndOfInput
    then show ?thesis using assms by (auto simp: iteration_def Let_def say_def)
  next
    case Interrupted
    then show ?thesis using assms by (auto simp: iteration_def Let_def say_def)
  qed
  show "agent_calls a' = agent_calls a \<longrightarrow> last_options a' = last_options a"
    using both by simp
  show "last_options a' = last_options a \<or> (\<exists>c. truthy c \<and> last_options a' = options_of c)"
    using both by simp
qed


lemma demo_bulleted_unfold:
  "demo_bulleted = demo_session\<lparr>last_options := [(ustr ''1'', ustr ''!scan'')]\<rparr>"
proof -
  have "options_of (Str (ustr ''- !scan'')) = [(ustr ''1'', ustr ''!scan'')]"
    by (simp add: options_of_def split_def bullet_match_def is_bullet_def isspace_def
        str_nat.simps ustr_def)
  then show ?thesis
    by (simp add: demo_bulleted_def format_with_numbers_session)
qed

lemma demo_select_scan:
  "iteration demo_env (Entered (ustr ''1'')) (demo_bulleted\<lparr>console := out\<rparr>) w =
     (Continue,
      demo_bulleted\<lparr>console := out @
        [Print [], Print (ustr ''[green]Selected:[/green] !scan'' @ [10])]\<rparr>,
      Suc w)"
  by (simp add: demo_bulleted_unfold iteration_def turn_def demo_env_def demo_session_def say_def
      select_option_def isdigit_def dict_in_def strip_def isspace_def lower_def lower_cp_def
      ustr_def Let_def)

text \<open>
  Claim C6 as stated fails on the code: selecting an option does not use it up. With the
  map built from the response \<^verbatim>\<open>- !scan\<close>, the input \<^verbatim>\<open>1\<close> selects \<^verbatim>\<open>!scan\<close>, and the same
  input selects it again in the next iteration; the map is the same after both.
\<close>

theorem option_selected_twice_counterexample:
  "last_options demo_bulleted = [(ustr ''1'', ustr ''!scan'')] \<and>
   run demo_env [Entered (ustr ''1''), Entered (ustr ''1'')] demo_bulleted 0 =
     (Waiting,
      demo_bulleted\<lparr>console :=
        [Print [], Print (ustr ''[green]Selected:[/green] !scan'' @ [10]),
         Print [], Print (ustr ''[green]Selected:[/green] !scan'' @ [10])]\<rparr>,
      2)"
proof -
  have c0: "demo_bulleted = demo_bulleted\<lparr>console := []\<rparr>"
    by (simp add: demo_bulleted_unfold demo_session_def)
  have "run demo_env [Entered (ustr ''1''), Entered (ustr ''1'')] (demo_bulleted\<lparr>console := []\<rparr>) 0 =
     (Waiting,
      demo_bulleted\<lparr>console :=
        [Print [], Print (ustr ''[green]Selected:[/green] !scan'' @ [10]),
         Print [], Print (ustr ''[green]Selected:[/green] !scan'' @ [10])]\<rparr>,
      2)"
    by (simp add: demo_select_scan numeral_2_eq_2)
  then show ?thesis
    using c0 by (simp add: demo_bulleted_unfold)
qed

text \<open>
  Claim C6, amended. Every run of the formatter replaces the map by the map built from
  the content alone, whatever the map was before; \<^verbatim>\<open>model_response\<close> runs it on every
  assistant response with a content that is not empty, bulleted or not, and the start
  screen sets five fixed options. Selecting an option does not change the map: an
  iteration of the driver that does not run the agent workflow leaves the map as it was,
  and after any iteration the map is either the one before or one rebuilt from a
  response. So an option stays selectable until a later response rebuilds the map.
\<close>

theorem last_options_rebuilt_not_consumed:
  "last_options (snd (format_with_numbers c a)) = options_of c \<and>
   last_options (show_response c a) = (if truthy c then options_of c else last_options a) \<and>
   map fst (last_options (display_quick_start a)) =
     [ustr ''1'', ustr ''2'', ustr ''3'', ustr ''4'', ustr ''5''] \<and>
   (\<forall>st a' w'. iteration env p a w = (st, a', w') \<longrightarrow>
      (agent_calls a' = agent_calls a \<longrightarrow>
         last_options a' = last_options a \<and>
         (\<forall>s. select_option (last_options a') s = select_option (last_options a) s)) \<and>
      (last_options a' = last_options a \<or> (\<exists>c. truthy c \<and> last_options a' = options_of c)))"
proof -
  have "last_options (snd (format_with_numbers c a)) = options_of c"
    by (simp add: format_with_numbers_session)
  moreover have "map fst (last_options (display_quick_start a)) =
     [ustr ''1'', ustr ''2'', ustr ''3'', ustr ''4'', ustr ''5'']"
    by (simp add: display_quick_start_def)
  moreover have "(agent_calls a' = agent_calls a \<longrightarrow>
         last_options a' = last_options a \<and>
         (\<forall>s. select_option (last_options a') s = select_option (last_options a) s)) \<and>
      (last_options a' = last_options a \<or> (\<exists>c. truthy c \<and> last_options a' = options_of c))"
    if "iteration env p a w = (st, a', w')" for st a' w'
    using iteration_options [OF that] by auto
  ultimately show ?thesis
    using show_response_fields(4) [of c a] by blast
qed

theorem last_options_rebuilt_not_consumed_witness:
  "iteration demo_env (Entered (ustr ''1'')) demo_bulleted 0 =
     (Continue,
      demo_bulleted\<lparr>console :=
        [Print [], Print (ustr ''[green]Selected:[/green] !scan'' @ [10])]\<rparr>, 1) \<and>
   agent_calls (demo_bulleted\<lparr>console :=
        [Print [], Print (ustr ''[green]Selected:[/green] !scan'' @ [10])]\<rparr>) =
     agent_calls demo_bulleted \<and>
   last_options (demo_bulleted\<lparr>console :=
        [Print [], Print (ustr ''[green]Selected:[/green] !scan'' @ [10])]\<rparr>) =
     [(ustr ''1'', ustr ''!scan'')] \<and>
   truthy (Str (ustr ''- !scan'')) \<and>
   last_options (show_response (Str (ustr ''- !scan'')) demo_session) = [(ustr ''1'', ustr ''!scan'')]"
proof -
  let ?a' = "demo_bulleted\<lparr>console :=
        [Print [], Print (ustr ''[green]Selected:[/green] !scan'' @ [10])]\<rparr>"
  have c0: "demo_bulleted = demo_bulleted\<lparr>console := []\<rparr>"
    by (simp add: demo_bulleted_unfold demo_session_def)
  have it: "iteration demo_env (Entered (ustr ''1'')) demo_bulleted 0 = (Continue, ?a', 1)"
    using demo_select_scan [of "[]" 0] c0 by simp
  have ac: "agent_calls ?a' = agent_calls demo_bulleted" by simp
  have lo: "last_options demo_bulleted = [(ustr ''1'', ustr ''!scan'')]"
    by (simp add: demo_bulleted_unfold)
  have tr: "truthy (Str (ustr ''- !scan''))" by (simp add: ustr_def)
  have oo: "options_of (Str (ustr ''- !scan'')) = last_options demo_bulleted"
    by (simp add: demo_bulleted_def format_with_numbers_session)
  from last_options_rebuilt_not_consumed
    [of "Str (ustr ''- !scan'')" demo_session demo_env "Entered (ustr ''1'')" 0]
  have "last_options (show_response (Str (ustr ''- !scan'')) demo_session) =
          options_of (Str (ustr ''- !scan''))"
    using tr by simp
  moreover
  from last_options_rebuilt_not_consumed
    [of "Str (ustr ''- !scan'')" demo_bulleted demo_env "Entered (ustr ''1'')" 0]
  have "last_options ?a' = last_options demo_bulleted"
    using it ac by blast
  ultimately show ?thesis
    using it ac lo tr oo by simp
qed

section \<open>Properties of the numbered-option formatter\<close>

text \<open>
  Claim C4 at a text whose bullet is the character U+2022. The character class of the
  pattern does not hold it, so the line is not taken for a bullet line: the text comes
  back unchanged and the map stays empty. A hyphen is a bullet, and so is the letter
  U+00C4, which the class does hold.
\<close>

theorem format_with_numbers_bullet_character:
  "bullet_match ([0x2022] @ ustr '' alpha'') = None \<and>
   format_with_numbers (Str ([0x2022] @ ustr '' alpha'')) a =
     ([0x2022] @ ustr '' alpha'', a\<lparr>last_options := []\<rparr>) \<and>
   format_with_numbers (Str (ustr ''- alpha'')) a =
     (ustr ''**1.** alpha'' @ tip 1, a\<lparr>last_options := [(ustr ''1'', ustr ''alpha'')]\<rparr>) \<and>
   format_with_numbers (Str ([0xC4] @ ustr '' alpha'')) a =
     (ustr ''**1.** alpha'' @ tip 1, a\<lparr>last_options := [(ustr ''1'', ustr ''alpha'')]\<rparr>)"
  by (simp add: format_with_numbers_def split_def bullet_match_def is_bullet_def isspace_def
      str_nat.simps ustr_def Let_def)

text \<open>
  For the lines that the pattern of the source does match, the formatter numbers them from
  1 in order, leaves every other line as it is, and maps the numeral of \<open>k\<close> to the content
  of the \<open>k\<close>-th matching line, which is what the input \<open>k\<close> then selects. The lemmas below
  prove this for every text.
\<close>

text \<open>Decimal numerals: \<^verbatim>\<open>str\<close> of a number reads back as the number, so it is injective.\<close>

lemma numeral_value_str_nat: "numeral_value (str_nat n) = n"
proof (induction n rule: str_nat.induct)
  case (1 n)
  show ?case
  proof (cases "n < 10")
    case True
    then show ?thesis by (subst str_nat.simps) (simp add: numeral_value_def)
  next
    case False
    have "numeral_value (str_nat n) = 10 * numeral_value (str_nat (n div 10)) + n mod 10"
      using False by (subst str_nat.simps) (simp add: numeral_value_def)
    then show ?thesis using "1.IH" [OF False] by simp
  qed
qed

lemma str_nat_inj: "str_nat m = str_nat n \<Longrightarrow> m = n"
  by (metis numeral_value_str_nat)

lemma str_nat_digits: "str_nat n \<noteq> [] \<and> (\<forall>c\<in>set (str_nat n). 48 \<le> c \<and> c \<le> 57)"
proof (induction n rule: str_nat.induct)
  case (1 n)
  show ?case
  proof (cases "n < 10")
    case True
    then show ?thesis by (subst (1 2) str_nat.simps) simp
  next
    case False
    have "n mod 10 < 10" by simp
    then have "48 + n mod 10 \<le> 57" by linarith
    then show ?thesis using False "1.IH" [OF False] by (subst (1 2) str_nat.simps) auto
  qed
qed

lemma strip_no_space: "\<forall>c\<in>set s. \<not> isspace c \<Longrightarrow> strip s = s"
proof -
  assume a: "\<forall>c\<in>set s. \<not> isspace c"
  have d: "dropWhile isspace xs = xs" if "\<forall>c\<in>set xs. \<not> isspace c" for xs
    using that by (cases xs) auto
  show ?thesis using a by (simp add: strip_def d)
qed

lemma strip_str_nat: "strip (str_nat n) = str_nat n"
proof (rule strip_no_space)
  show "\<forall>c\<in>set (str_nat n). \<not> isspace c"
    using str_nat_digits [of n] by (auto simp: isspace_def)
qed

lemma isdigit_str_nat: "isdigit (str_nat n)"
  using str_nat_digits [of n] by (simp add: isdigit_def list_all_iff)

lemma dict_set_fresh: "k \<notin> fst ` set d \<Longrightarrow> dict_set k v d = d @ [(k, v)]"
  by (induction d) auto

lemma bullet_contents_Cons:
  "bullet_contents (line # lines) =
     (case bullet_match line of Some (indent, content) \<Rightarrow> content # bullet_contents lines
      | None \<Rightarrow> bullet_contents lines)"
  by (simp add: bullet_contents_def List.map_filter_simps split: option.splits)

text \<open>The loop computes the renumbered lines and the map from numerals to contents.\<close>

lemma format_lines_eq:
  assumes "\<forall>k\<in>fst ` set opts. \<exists>j<n. k = str_nat j"
  shows "format_lines lines n opts out =
           (out @ number_lines n lines,
            opts @ zip (map str_nat [n..<n + length (bullet_contents lines)]) (bullet_contents lines))"
  using assms
proof (induction lines arbitrary: n opts out)
  case Nil
  then show ?case by (simp add: bullet_contents_def List.map_filter_simps)
next
  case (Cons line lines)
  show ?case
  proof (cases "bullet_match line")
    case None
    then show ?thesis using Cons.IH [OF Cons.prems] by (simp add: bullet_contents_Cons)
  next
    case (Some ic)
    obtain indent content where ic: "ic = (indent, content)" by (cases ic)
    have fresh: "str_nat n \<notin> fst ` set opts"
      using Cons.prems str_nat_inj by fastforce
    have keys: "\<forall>k\<in>fst ` set (opts @ [(str_nat n, content)]). \<exists>j<Suc n. k = str_nat j"
      using Cons.prems by (auto intro: less_SucI)
    have up: "[n..<Suc (n + l)] = n # [Suc n..<Suc (n + l)]" for l
      by (rule upt_conv_Cons) simp
    show ?thesis
      using Cons.IH [OF keys] Some ic
      by (simp add: bullet_contents_Cons dict_set_fresh [OF fresh] up del: upt_Suc)
  qed
qed


text \<open>
  The formatter as a whole: the lines renumbered from 1, joined again, with the hint when
  there is a bullet line; the map sends the numeral of \<open>k\<close> to the content of the \<open>k\<close>-th
  bullet line.
\<close>

lemma format_with_numbers_eq:
  "format_with_numbers c a =
     (join [10] (number_lines 1 (split [10] (text_of c))) @
        (if bullet_contents (split [10] (text_of c)) = [] then []
         else tip (length (bullet_contents (split [10] (text_of c))))),
      a\<lparr>last_options :=
          zip (map str_nat [1..<1 + length (bullet_contents (split [10] (text_of c)))])
            (bullet_contents (split [10] (text_of c)))\<rparr>)"
proof -
  let ?lines = "split [10] (text_of c)"
  let ?bs = "bullet_contents ?lines"
  let ?opts = "zip (map str_nat [Suc 0..<Suc (length ?bs)]) ?bs"
  have fl: "format_lines ?lines (Suc 0) [] [] = (number_lines (Suc 0) ?lines, ?opts)"
    using format_lines_eq [of "[]" "Suc 0" ?lines "[]"] by simp
  have l: "length ?opts = length ?bs"
    by (simp only: length_zip length_map length_upt)
  then have e: "(?opts = []) = (?bs = [])"
    by (metis length_0_conv)
  show ?thesis
    by (simp add: format_with_numbers_def Let_def fl l e del: upt_Suc)
qed

lemma options_of_eq:
  "options_of c =
     zip (map str_nat [1..<1 + length (bullet_contents (split [10] (text_of c)))])
       (bullet_contents (split [10] (text_of c)))"
  using format_lines_eq [of "[]" 1 "split [10] (text_of c)" "[]"] by (simp add: options_of_def)

lemma number_lines_length: "length (number_lines n lines) = length lines"
  by (induction lines arbitrary: n) (auto split: option.splits)

lemma number_lines_nth:
  "i < length lines \<Longrightarrow>
   number_lines n lines ! i =
     (case bullet_match (lines ! i) of
        None \<Rightarrow> lines ! i
      | Some (indent, content) \<Rightarrow>
          indent @ ustr ''**'' @ str_nat (n + length (bullet_contents (take i lines))) @
          ustr ''.** '' @ content)"
proof (induction lines arbitrary: n i)
  case Nil
  then show ?case by simp
next
  case (Cons line lines)
  show ?case
  proof (cases i)
    case 0
    then show ?thesis
      by (simp add: bullet_contents_def List.map_filter_simps split: option.splits)
  next
    case (Suc j)
    then have j: "j < length lines" using Cons.prems by simp
    show ?thesis
      using Cons.IH [OF j, of n] Cons.IH [OF j, of "Suc n"] Suc
      by (simp add: bullet_contents_Cons split: option.splits)
  qed
qed

text \<open>
  The round trip: typing the number \<open>k\<close> of a bullet line selects the content of that
  line.
\<close>

lemma select_option_round_trip:
  assumes "1 \<le> k" and "k \<le> length (bullet_contents (split [10] (text_of c)))"
  shows "select_option (options_of c) (str_nat k) =
           Some (bullet_contents (split [10] (text_of c)) ! (k - 1))"
proof -
  let ?bs = "bullet_contents (split [10] (text_of c))"
  let ?ks = "map str_nat [1..<1 + length ?bs]"
  have inj: "inj str_nat" using str_nat_inj by (auto simp: inj_on_def)
  have dist: "distinct ?ks"
    by (simp add: distinct_map inj_on_subset [OF inj] del: upt_Suc)
  have len: "length ?ks = length ?bs"
    by (simp only: length_map length_upt)
  have i: "k - 1 < length ?bs" using assms by simp
  have key: "?ks ! (k - 1) = str_nat k"
    using assms by (simp add: nth_map_upt del: upt_Suc)
  have m: "map_of (zip ?ks ?bs) (str_nat k) = Some (?bs ! (k - 1))"
    using map_of_zip_nth [OF len dist i] key by simp
  have di: "dict_in (str_nat k) (zip ?ks ?bs)"
    using m by (simp only: dict_in_def) simp
  show ?thesis
    by (simp only: select_option_def strip_str_nat options_of_eq isdigit_str_nat di m
        simp_thms if_True)
qed

end
